theory Spec2Isabelle
  imports Complex_Main
begin

section \<open>Numbers, errors and outcomes\<close>

text \<open>
  The source is JavaScript. The numbers it is given (coordinates, what the draw context
  answers) are modelled as exact reals; integral counters (\<open>divisions\<close>, \<open>level\<close>, grid
  rows and columns) as \<open>int\<close>. A call that throws is \<open>Inl\<close> of the error, a call that
  returns is \<open>Inr\<close> of its value, and a call that does not return at all is \<open>None\<close>.
\<close>

datatype error =
    ReferenceError string
  | TypeError string

text \<open>
  A division by zero does not throw in the source: it yields \<open>Infinity\<close>,
  \<open>-Infinity\<close> or \<open>NaN\<close>, and the computation goes on with that value. The quotients
  the source computes are therefore numbers that may be non-finite: \<open>Inr x\<close> is the
  finite number \<open>x\<close>, and \<open>Inl\<close> holds one of the three other values. The zero of the
  reals stands for the positive zero of the source.
\<close>

datatype nonfinite = PosInfinity | NegInfinity | NaN

type_synonym jsnumber = "nonfinite + real"

text \<open>
  \<open>js_div a y\<close> is the quotient \<open>a / y\<close> of the source for a finite divisor \<open>y\<close>: a
  finite number divided by zero is an infinity of its sign, or \<open>NaN\<close> when it is zero
  itself; an infinity divided by a finite number keeps or changes its sign with the
  sign of the divisor; \<open>NaN\<close> stays \<open>NaN\<close>.
\<close>

fun js_div :: "jsnumber \<Rightarrow> real \<Rightarrow> jsnumber" where
  "js_div (Inr x) y =
     (if y \<noteq> 0 then Inr (x / y)
      else if x > 0 then Inl PosInfinity
      else if x < 0 then Inl NegInfinity
      else Inl NaN)"
| "js_div (Inl PosInfinity) y = (if y < 0 then Inl NegInfinity else Inl PosInfinity)"
| "js_div (Inl NegInfinity) y = (if y < 0 then Inl PosInfinity else Inl NegInfinity)"
| "js_div (Inl NaN) y = Inl NaN"

text \<open>
  \<open>js_lt a b\<close> is the comparison \<open>a < b\<close> of the source: \<open>-Infinity\<close> is below every
  other number, \<open>Infinity\<close> above, and a comparison with \<open>NaN\<close> is false.
\<close>

fun js_lt :: "jsnumber \<Rightarrow> jsnumber \<Rightarrow> bool" where
  "js_lt (Inr x) (Inr y) = (x < y)"
| "js_lt (Inr x) (Inl PosInfinity) = True"
| "js_lt (Inl NegInfinity) (Inr y) = True"
| "js_lt (Inl NegInfinity) (Inl PosInfinity) = True"
| "js_lt a b = False"

text \<open>
  A value that may be \<open>undefined\<close> is \<open>None\<close>; where the source uses it as a number,
  \<open>undefined\<close> is \<open>NaN\<close>.
\<close>

definition toNumber :: "real option \<Rightarrow> jsnumber" where
  "toNumber v = (case v of None \<Rightarrow> Inl NaN | Some x \<Rightarrow> Inr x)"

section \<open>LatLonGraticuleGridTile: constants and the resolution bands\<close>

definition minCellSizePixels :: real where
  "minCellSizePixels = 40"

definition graticuleLatLonLevel0 :: string where
  "graticuleLatLonLevel0 = ''Graticule.LatLonLevel0''"

definition graticuleLatLonLevel1 :: string where
  "graticuleLatLonLevel1 = ''Graticule.LatLonLevel1''"

definition graticuleLatLonLevel2 :: string where
  "graticuleLatLonLevel2 = ''Graticule.LatLonLevel2''"

definition graticuleLatLonLevel3 :: string where
  "graticuleLatLonLevel3 = ''Graticule.LatLonLevel3''"

definition graticuleLatLonLevel4 :: string where
  "graticuleLatLonLevel4 = ''Graticule.LatLonLevel4''"

definition graticuleLatLonLevel5 :: string where
  "graticuleLatLonLevel5 = ''Graticule.LatLonLevel5''"

text \<open>
  \<open>getLevel\<close> has no final \<open>else\<close>: below the last band the function falls off its end
  and the caller receives \<open>undefined\<close>, here \<open>None\<close>.
\<close>

definition getLevel :: "real \<Rightarrow> string option" where
  "getLevel resolution =
     (if resolution \<ge> 10 then Some graticuleLatLonLevel0
      else if resolution \<ge> 1 then Some graticuleLatLonLevel1
      else if resolution \<ge> 0.1 then Some graticuleLatLonLevel2
      else if resolution \<ge> 0.01 then Some graticuleLatLonLevel3
      else if resolution \<ge> 0.001 then Some graticuleLatLonLevel4
      else if resolution \<ge> 0.0001 then Some graticuleLatLonLevel5
      else None)"

text \<open>
  \<open>getLevel\<close> of a quotient that may be non-finite: \<open>Infinity\<close> passes the first test
  of the chain, \<open>-Infinity\<close> and \<open>NaN\<close> fail every test.
\<close>

definition getLevelOf :: "jsnumber \<Rightarrow> string option" where
  "getLevelOf resolution =
     (case resolution of
        Inr r \<Rightarrow> getLevel r
      | Inl PosInfinity \<Rightarrow> Some graticuleLatLonLevel0
      | Inl NegInfinity \<Rightarrow> None
      | Inl NaN \<Rightarrow> None)"

section \<open>Geometry the graticule code consumes\<close>

record Sector =
  minLatitude :: real
  maxLatitude :: real
  minLongitude :: real
  maxLongitude :: real

definition new_Sector :: "real \<Rightarrow> real \<Rightarrow> real \<Rightarrow> real \<Rightarrow> Sector" where
  "new_Sector minLat maxLat minLon maxLon =
     \<lparr>minLatitude = minLat, maxLatitude = maxLat,
      minLongitude = minLon, maxLongitude = maxLon\<rparr>"

text \<open>
  Modelled from the spec: \<open>geom/Sector\<close> is not among the sources. The spec gives the
  region as a min/max rectangle with \<open>deltaLat = maxLat - minLat\<close> and
  \<open>deltaLon = maxLon - minLon\<close>.
\<close>

definition deltaLatitude :: "Sector \<Rightarrow> real" where
  "deltaLatitude s = maxLatitude s - minLatitude s"

definition deltaLongitude :: "Sector \<Rightarrow> real" where
  "deltaLongitude s = maxLongitude s - minLongitude s"

text \<open>
  Modelled from the spec: \<open>Sector.centroid\<close> is not among the sources; the centroid of
  the rectangle is its midpoint in both coordinates.
\<close>

definition centroid :: "Sector \<Rightarrow> real \<times> real" where
  "centroid s =
     ((minLatitude s + maxLatitude s) / 2, (minLongitude s + maxLongitude s) / 2)"

text \<open>
  Modelled from the spec: \<open>Sector.overlaps\<close> is not among the sources; the spec only
  names an overlap query of two rectangles. Two rectangles overlap when each begins
  before the other ends, in both coordinates.
\<close>

definition overlaps :: "Sector \<Rightarrow> Sector \<Rightarrow> bool" where
  "overlaps s r \<longleftrightarrow>
     minLongitude s < maxLongitude r \<and> maxLongitude s > minLongitude r \<and>
     minLatitude s < maxLatitude r \<and> maxLatitude s > minLatitude r"

text \<open>
  What a region contains and how two regions meet, for the partition property: a
  sub-region lies within its parent, and two sub-regions share an area (more than a
  boundary) when their interiors meet.
\<close>

definition sectorWithin :: "Sector \<Rightarrow> Sector \<Rightarrow> bool" where
  "sectorWithin s r \<longleftrightarrow>
     minLatitude r \<le> minLatitude s \<and> maxLatitude s \<le> maxLatitude r \<and>
     minLongitude r \<le> minLongitude s \<and> maxLongitude s \<le> maxLongitude r"

datatype Position = Position (latitude: real) (longitude: real) (altitude: real)

datatype Vec3 = Vec3 real real real

section \<open>GridElement\<close>

datatype ElementType =
    typeLine
  | typeLineNorth
  | typeLineSouth
  | typeLineWest
  | typeLineEast
  | typeLineNorthing
  | typeLineEasting
  | typeGridZoneLabel
  | typeLongitudeLabel
  | typeLatitudeLabel

datatype PathType = LINEAR

datatype AltitudeMode = CLAMP_TO_GROUND

text \<open>
  A renderable is a \<open>Path\<close> (as \<open>createLineRenderable\<close> builds it) or a
  \<open>GeographicText\<close> (a label string, absent when the formatter returned nothing, at
  a position).
\<close>

datatype Renderable =
    Path "Position list" AltitudeMode bool PathType
  | GeographicText "string option" Vec3

record GridElement =
  ge_sector :: Sector
  ge_renderable :: Renderable
  ge_type :: ElementType
  ge_value :: real

definition isLabel :: "GridElement \<Rightarrow> bool" where
  "isLabel ge =
     (case ge_type ge of
        typeGridZoneLabel \<Rightarrow> True
      | typeLongitudeLabel \<Rightarrow> True
      | typeLatitudeLabel \<Rightarrow> True
      | _ \<Rightarrow> False)"

definition isLine :: "GridElement \<Rightarrow> bool" where
  "isLine ge =
     (case ge_type ge of
        typeLine \<Rightarrow> True
      | typeLineNorth \<Rightarrow> True
      | typeLineSouth \<Rightarrow> True
      | typeLineWest \<Rightarrow> True
      | typeLineEast \<Rightarrow> True
      | typeLineNorthing \<Rightarrow> True
      | typeLineEasting \<Rightarrow> True
      | _ \<Rightarrow> False)"

section \<open>The draw context\<close>

text \<open>
  \<open>render/DrawContext\<close>, the globe, \<open>BoundingBox\<close> and \<open>Vec3\<close> are not among the
  sources; the draw context is the record of what the graticule code reads from them.
  \<^item> \<open>dc_projectionLimits\<close> is \<open>dc.projectionLimits\<close>, and \<open>globe_projectionLimits\<close> is
    \<open>dc.globe.projectionLimits\<close>; an absent (falsy) value is \<open>None\<close>.
  \<^item> \<open>intersectsFrustum s\<close> is the answer of \<open>extent.intersectsFrustum\<close> for the
    bounding box that \<open>setToSector\<close> builds from sector \<open>s\<close>, the globe and the
    exaggerated elevations of \<open>minAndMaxElevationsForSector\<close>.
  \<^item> \<open>eyeDistanceToSurface lat lon\<close> is \<open>dc.eyePoint.distanceTo\<close> of the point that
    \<open>dc.surfacePointForMode(lat, lon, 0, null, _)\<close> yields.
  \<^item> the remaining fields are read as they are named.
\<close>

record DrawContext =
  dc_projectionLimits :: "Sector option"
  globe_projectionLimits :: "Sector option"
  intersectsFrustum :: "Sector \<Rightarrow> bool"
  eyeDistanceToSurface :: "real \<Rightarrow> real \<Rightarrow> real"
  pixelSizeAtDistance :: "real \<Rightarrow> real"
  eyePosition :: Position
  eyePoint :: Vec3
  navigator_heading :: real
  navigator_tilt :: real
  navigator_fieldOfView :: real
  verticalExaggeration :: real
  globe :: nat
  globe_projection :: nat

text \<open>
  \<open>GridElement.isInView(dc, vs)\<close>: the optional argument \<open>vs\<close> is \<open>None\<close> when the
  caller leaves it out. A sector object is always truthy, so \<open>vs || limits\<close> is the
  first of the two that is present.
\<close>

definition ge_isInView :: "GridElement \<Rightarrow> DrawContext \<Rightarrow> Sector option \<Rightarrow> bool" where
  "ge_isInView ge dc vs =
     (let vs' = (case vs of Some s \<Rightarrow> Some s | None \<Rightarrow> globe_projectionLimits dc)
      in case vs' of None \<Rightarrow> False | Some s \<Rightarrow> overlaps (ge_sector ge) s)"

section \<open>GraticuleGridTile\<close>

text \<open>
  A tile owns its sector, its number of divisions, its depth, and two caches that are
  \<open>null\<close> until filled: its grid elements and its sub-tiles.
\<close>

datatype GridTile =
  GridTile (sector: Sector) (divisions: int) (level: int)
    (gridElements: "GridElement list option") (subTiles: "GridTile list option")

definition new_GridTile :: "Sector \<Rightarrow> int \<Rightarrow> int \<Rightarrow> GridTile" where
  "new_GridTile s d l = GridTile s d l None None"

definition set_gridElements :: "GridElement list option \<Rightarrow> GridTile \<Rightarrow> GridTile" where
  "set_gridElements es t = GridTile (sector t) (divisions t) (level t) es (subTiles t)"

definition set_subTiles :: "GridTile list option \<Rightarrow> GridTile \<Rightarrow> GridTile" where
  "set_subTiles ts t = GridTile (sector t) (divisions t) (level t) (gridElements t) ts"

text \<open>
  Modelled from the spec: \<open>Angle.DEGREES_TO_RADIANS\<close> is not among the sources; the
  spec takes the tile's latitude extent "in radians".
\<close>

definition DEGREES_TO_RADIANS :: real where
  "DEGREES_TO_RADIANS = pi / 180"

text \<open>
  \<open>GraticuleGridTile.isInView\<close>. When the frustum test passes and \<open>dc.projectionLimits\<close>
  is present, the source evaluates \<open>this.sector.overlaps(vs)\<close>, and \<open>vs\<close> is declared
  nowhere: the read throws.
\<close>

definition base_isInView :: "GridTile \<Rightarrow> DrawContext \<Rightarrow> error + bool" where
  "base_isInView t dc =
     (if \<not> intersectsFrustum dc (sector t) then Inr False
      else if dc_projectionLimits dc \<noteq> None then Inl (ReferenceError ''vs is not defined'')
      else Inr True)"

definition getSizeInPixels :: "GridTile \<Rightarrow> DrawContext \<Rightarrow> jsnumber" where
  "getSizeInPixels t dc =
     (let (lat, lon) = centroid (sector t);
          distance = eyeDistanceToSurface dc lat lon;
          tileSizeMeter = deltaLatitude (sector t) * DEGREES_TO_RADIANS
      in js_div (Inr tileSizeMeter) (pixelSizeAtDistance dc distance))"

text \<open>
  \<open>clearRenderables\<close> drops the elements, clears every sub-tile and then drops the
  sub-tiles; the cleared sub-tiles are no longer reachable, so the tile that remains
  has both caches empty.
\<close>

definition clearRenderables :: "GridTile \<Rightarrow> GridTile" where
  "clearRenderables t = GridTile (sector t) (divisions t) (level t) None None"

definition createLineRenderable :: "Position list \<Rightarrow> PathType \<Rightarrow> Renderable" where
  "createLineRenderable positions pathType = Path positions CLAMP_TO_GROUND True pathType"

definition computeLabelOffset :: "DrawContext \<Rightarrow> Position" where
  "computeLabelOffset dc = eyePosition dc"

text \<open>
  The bodies of the two \<open>while\<close> loops of \<open>createRenderables\<close> and of its final
  \<open>if\<close>: the element for the meridian at a longitude, for the parallel at a
  latitude, and for the parallel that closes the grid at the pole.
\<close>

definition meridianElement :: "GridTile \<Rightarrow> real \<Rightarrow> GridElement" where
  "meridianElement t lon =
     (let positions = [Position (minLatitude (sector t)) lon 0,
                       Position (maxLatitude (sector t)) lon 0];
          line = createLineRenderable positions LINEAR;
          sec = new_Sector (minLatitude (sector t)) (maxLatitude (sector t)) lon lon;
          lineType = (if lon = minLongitude (sector t) then typeLineWest else typeLine)
      in \<lparr>ge_sector = sec, ge_renderable = line, ge_type = lineType, ge_value = lon\<rparr>)"

definition parallelElement :: "GridTile \<Rightarrow> real \<Rightarrow> GridElement" where
  "parallelElement t lat =
     (let positions = [Position lat (minLongitude (sector t)) 0,
                       Position lat (maxLongitude (sector t)) 0];
          line = createLineRenderable positions LINEAR;
          sec = new_Sector lat lat (minLongitude (sector t)) (maxLongitude (sector t));
          lineType = (if lat = minLatitude (sector t) then typeLineSouth else typeLine)
      in \<lparr>ge_sector = sec, ge_renderable = line, ge_type = lineType, ge_value = lat\<rparr>)"

definition northElement :: "GridTile \<Rightarrow> GridElement" where
  "northElement t =
     (let positions = [Position 90 (minLongitude (sector t)) 0,
                       Position 90 (maxLongitude (sector t)) 0];
          line = createLineRenderable positions LINEAR;
          sec = new_Sector 90 90 (minLongitude (sector t)) (maxLongitude (sector t))
      in \<lparr>ge_sector = sec, ge_renderable = line, ge_type = typeLineNorth, ge_value = 90\<rparr>)"

text \<open>
  Each loop pushes one element and advances by \<open>step\<close> while the coordinate is below
  the upper edge less half a step; with a step that is not positive a loop that starts
  never ends, and the function has no value.
\<close>

partial_function (option) meridianLoop ::
  "GridTile \<Rightarrow> real \<Rightarrow> real \<Rightarrow> GridElement list \<Rightarrow> GridElement list option" where
  "meridianLoop t step lon elems =
     (if lon < maxLongitude (sector t) - step / 2
      then meridianLoop t step (lon + step) (elems @ [meridianElement t lon])
      else Some elems)"

partial_function (option) parallelLoop ::
  "GridTile \<Rightarrow> real \<Rightarrow> real \<Rightarrow> GridElement list \<Rightarrow> GridElement list option" where
  "parallelLoop t step lat elems =
     (if lat < maxLatitude (sector t) - step / 2
      then parallelLoop t step (lat + step) (elems @ [parallelElement t lat])
      else Some elems)"

definition northLine :: "GridTile \<Rightarrow> GridElement list \<Rightarrow> GridElement list" where
  "northLine t elems =
     (if maxLatitude (sector t) = 90 then elems @ [northElement t] else elems)"

text \<open>
  \<open>createRenderables\<close> returns the element list it stores in \<open>this.gridElements\<close>; it
  throws nothing. The step is the quotient \<open>deltaLatitude / divisions\<close>.
  \<^item> With a finite step the two loops run as above.
  \<^item> With the step \<open>Infinity\<close> each loop tests its coordinate against
    \<open>max - Infinity / 2\<close>, which is \<open>-Infinity\<close>: no coordinate is below it, neither
    loop starts, and only the line at the pole may be pushed.
  \<^item> With the step \<open>NaN\<close> the bound is \<open>NaN\<close>, the test is false, and again neither
    loop starts.
  \<^item> With the step \<open>-Infinity\<close> the bound is \<open>Infinity\<close>; the first loop starts, its
    coordinate becomes \<open>-Infinity\<close> and stays below the bound, and the loop never ends.
\<close>

definition createRenderables :: "GridTile \<Rightarrow> GridElement list option" where
  "createRenderables t =
     (case js_div (Inr (deltaLatitude (sector t))) (real_of_int (divisions t)) of
        Inr step \<Rightarrow>
          (case meridianLoop t step
                  (minLongitude (sector t) + (if level t = 0 then 0 else step)) [] of
             None \<Rightarrow> None
           | Some elems1 \<Rightarrow>
               (case parallelLoop t step
                       (minLatitude (sector t) + (if level t = 0 then 0 else step)) elems1 of
                  None \<Rightarrow> None
                | Some elems2 \<Rightarrow> Some (northLine t elems2)))
      | Inl PosInfinity \<Rightarrow> Some (northLine t [])
      | Inl NaN \<Rightarrow> Some (northLine t [])
      | Inl NegInfinity \<Rightarrow> None)"

text \<open>
  \<open>subdivideSector\<close>: rows outside, columns inside, one sector per cell, appended in
  that order.
\<close>

definition subdivideSector :: "GridTile \<Rightarrow> Sector list" where
  "subdivideSector t =
     (let dLat = deltaLatitude (sector t);
          dLon = deltaLongitude (sector t);
          minLat = minLatitude (sector t);
          minLon = minLongitude (sector t)
      in concat (map (\<lambda>row. map (\<lambda>col.
            new_Sector (minLat + dLat * real_of_int row)
                       (minLat + dLat * real_of_int row + dLat)
                       (minLon + dLon * real_of_int col)
                       (minLon + dLon * real_of_int col + dLon))
            [0..<nat (divisions t)]) [0..<nat (divisions t)]))"

text \<open>
  \<open>LatLonGraticuleGridTile.isInView\<close> and \<open>selectRenderables\<close> compare the projected
  size of one cell, \<open>getSizeInPixels(dc) / divisions\<close>, with the minimum cell size.
\<close>

definition cellSizePixels :: "GridTile \<Rightarrow> DrawContext \<Rightarrow> jsnumber" where
  "cellSizePixels t dc = js_div (getSizeInPixels t dc) (real_of_int (divisions t))"

definition isInView :: "GridTile \<Rightarrow> DrawContext \<Rightarrow> error + bool" where
  "isInView t dc =
     (case base_isInView t dc of
        Inl e \<Rightarrow> Inl e
      | Inr False \<Rightarrow> Inr False
      | Inr True \<Rightarrow>
          if level t \<noteq> 0 \<and> js_lt (cellSizePixels t dc) (Inr minCellSizePixels)
          then Inr False
          else Inr True)"

text \<open>
  The level-0 early return compares with \<open>this.minCellSizePixels\<close>. The constant is a
  property of the constructor only; neither the instance nor its prototypes have it,
  so the read yields \<open>undefined\<close>, and a number compared with \<open>undefined\<close> is never
  smaller.
\<close>

definition this_minCellSizePixels :: "real option" where
  "this_minCellSizePixels = None"

type_synonym LabelRequest = "real \<times> ElementType \<times> string option \<times> real \<times> Position"

type_synonym Selection =
  "(Renderable \<times> string option) list \<times> (Renderable \<times> string option) list
     \<times> LabelRequest list"

text \<open>The first \<open>for\<close> loop of \<open>selectRenderables\<close>, run for a tile of level 0.\<close>

fun level0Loop ::
  "DrawContext \<Rightarrow> string option \<Rightarrow> real \<Rightarrow> Position \<Rightarrow> GridElement list
     \<Rightarrow> Selection \<Rightarrow> Selection" where
  "level0Loop dc graticuleLevel dLat labelOffset [] sel = sel"
| "level0Loop dc graticuleLevel dLat labelOffset (ge # ges) (paths, texts, labels) =
     (if ge_isInView ge dc None \<and>
         (ge_type ge = typeLineSouth \<or> ge_type ge = typeLineNorth
            \<or> ge_type ge = typeLineWest)
      then
        let labelType =
              (if ge_type ge = typeLineNorth \<or> ge_type ge = typeLineSouth
               then typeLatitudeLabel else typeLongitudeLabel)
        in level0Loop dc graticuleLevel dLat labelOffset ges
             (paths @ [(ge_renderable ge, graticuleLevel)], texts,
              labels @ [(ge_value ge, labelType, graticuleLevel, dLat, labelOffset)])
      else level0Loop dc graticuleLevel dLat labelOffset ges (paths, texts, labels))"

text \<open>
  The second \<open>for\<close> loop. \<open>GridElement\<close> has no method \<open>isText\<close>, so the \<open>else if\<close>
  branch throws when it is reached.
\<close>

fun interiorLoop ::
  "DrawContext \<Rightarrow> string option \<Rightarrow> real \<Rightarrow> Position \<Rightarrow> GridElement list
     \<Rightarrow> Selection \<Rightarrow> error + Selection" where
  "interiorLoop dc graticuleLevel dLat labelOffset [] sel = Inr sel"
| "interiorLoop dc graticuleLevel dLat labelOffset (ge # ges) (paths, texts, labels) =
     (if ge_isInView ge dc None \<and> ge_type ge = typeLine then
        if isLine ge then
          let labelType =
                (if deltaLatitude (ge_sector ge) = 0
                 then typeLatitudeLabel else typeLongitudeLabel)
          in interiorLoop dc graticuleLevel dLat labelOffset ges
               (paths @ [(ge_renderable ge, graticuleLevel)], texts,
                labels @ [(ge_value ge, labelType, graticuleLevel, dLat, labelOffset)])
        else Inl (TypeError ''ge.isText is not a function'')
      else interiorLoop dc graticuleLevel dLat labelOffset ges (paths, texts, labels))"

text \<open>
  What \<open>selectRenderables\<close> does with the tile's own elements, up to the test that
  decides whether the sub-tiles are visited. The result is the selection so far and
  whether the function has returned (\<open>True\<close>) or goes on to the sub-tiles (\<open>False\<close>).
\<close>

definition selectOwn ::
  "GridTile \<Rightarrow> DrawContext \<Rightarrow> GridElement list \<Rightarrow> error + (Selection \<times> bool)" where
  "selectOwn t dc elems =
     (let labelOffset = computeLabelOffset dc;
          dLat = deltaLatitude (sector t);
          level0 =
            (if level t = 0 then
               (level0Loop dc (getLevel dLat) dLat labelOffset elems ([], [], []),
                js_lt (cellSizePixels t dc) (toNumber this_minCellSizePixels))
             else (([], [], []), False))
      in case level0 of
           (sel0, True) \<Rightarrow> Inr (sel0, True)
         | (sel0, False) \<Rightarrow>
             let resolution = js_div (Inr dLat) (real_of_int (divisions t)) in
             case interiorLoop dc (getLevelOf resolution) dLat labelOffset elems sel0 of
               Inl e \<Rightarrow> Inl e
             | Inr sel \<Rightarrow>
                 Inr (sel, js_lt (cellSizePixels t dc) (Inr (minCellSizePixels * 2))))"

definition createSubTiles :: "GridTile \<Rightarrow> GridTile list" where
  "createSubTiles t =
     (let sectors = subdivideSector t;
          subdivisions = (if level t = 0 \<or> level t = 2 then 6 else 10)
      in map (\<lambda>s. new_GridTile s subdivisions (level t + 1)) sectors)"

text \<open>
  The last \<open>for\<close> loop: a sub-tile in view is selected, and what its
  \<open>selectRenderables\<close> returns is not used; any other sub-tile is cleared. The loop
  returns the sub-tiles as the calls left them.
\<close>

fun visitSubTiles ::
  "(GridTile \<Rightarrow> ((error + Selection) \<times> GridTile) option) \<Rightarrow> DrawContext
     \<Rightarrow> GridTile list \<Rightarrow> ((error + unit) \<times> GridTile list) option" where
  "visitSubTiles select dc [] = Some (Inr (), [])"
| "visitSubTiles select dc (gt # gts) =
     (case isInView gt dc of
        Inl e \<Rightarrow> Some (Inl e, gt # gts)
      | Inr True \<Rightarrow>
          (case select gt of
             None \<Rightarrow> None
           | Some (Inl e, gt') \<Rightarrow> Some (Inl e, gt' # gts)
           | Some (Inr ignored, gt') \<Rightarrow>
               (case visitSubTiles select dc gts of
                  None \<Rightarrow> None
                | Some (r, gts') \<Rightarrow> Some (r, gt' # gts')))
      | Inr False \<Rightarrow>
          (case visitSubTiles select dc gts of
             None \<Rightarrow> None
           | Some (r, gts') \<Rightarrow> Some (r, clearRenderables gt # gts')))"

text \<open>
  \<open>LatLonGraticuleGridTile.selectRenderables\<close>. The recursion into the sub-tiles has no
  bound in the source, so the model counts the depth of calls it may still make: with
  none left there is no value. The result is what the call returns or throws, and the
  tile as the call leaves it.
\<close>

fun selectRenderables ::
  "nat \<Rightarrow> GridTile \<Rightarrow> DrawContext \<Rightarrow> ((error + Selection) \<times> GridTile) option" where
  "selectRenderables 0 t dc = None"
| "selectRenderables (Suc depth) t dc =
     (case (case gridElements t of
              None \<Rightarrow> createRenderables t
            | Some elems \<Rightarrow> Some elems) of
        None \<Rightarrow> None
      | Some elems \<Rightarrow>
          let t1 = set_gridElements (Some elems) t in
          case selectOwn t1 dc elems of
            Inl e \<Rightarrow> Some (Inl e, t1)
          | Inr (sel, True) \<Rightarrow> Some (Inr sel, t1)
          | Inr (sel, False) \<Rightarrow>
              let subs = (case subTiles t1 of
                            None \<Rightarrow> createSubTiles t1
                          | Some ts \<Rightarrow> ts)
              in case visitSubTiles (\<lambda>gt. selectRenderables depth gt dc) dc subs of
                   None \<Rightarrow> None
                 | Some (Inl e, subs') \<Rightarrow> Some (Inl e, set_subTiles (Some subs') t1)
                 | Some (Inr u, subs') \<Rightarrow> Some (Inr sel, set_subTiles (Some subs') t1))"

section \<open>LatLonGraticuleLayer: the top-level grid\<close>

definition getGridColumn :: "real \<Rightarrow> int" where
  "getGridColumn lon = (let col = \<lfloor>(lon + 180) / 10\<rfloor> in min col 35)"

definition getGridRow :: "real \<Rightarrow> int" where
  "getGridRow lat = (let row = \<lfloor>(lat + 90) / 10\<rfloor> in min row 17)"

definition getGridSector :: "int \<Rightarrow> int \<Rightarrow> Sector" where
  "getGridSector row col =
     (let minLat = - 90 + real_of_int row * 10;
          maxLat = minLat + 10;
          minLon = - 180 * real_of_int col * 10;
          maxLon = minLon + 10
      in new_Sector minLat maxLat minLon maxLon)"

section \<open>GraticuleLayer: labels\<close>

definition dmsAngleFormat :: string where
  "dmsAngleFormat = ''DegreesMinutesSeconds''"

definition dmAngleFormat :: string where
  "dmAngleFormat = ''DegreesMinutes''"

definition ddAngleFormat :: string where
  "ddAngleFormat = ''DecimalDegrees''"

text \<open>
  The layer's fields that \<open>addLabel\<close> and \<open>clear\<close> touch. \<open>pathRenderables\<close> and
  \<open>textRenderables\<close> are the two arrays of the layer's \<open>GraticuleSupport\<close>.
\<close>

record Layer =
  latitudeLabels :: "real list"
  longitudeLabels :: "real list"
  angleFormat :: string
  pathRenderables :: "(Renderable \<times> string option) list"
  textRenderables :: "(Renderable \<times> string option) list"
  layer_globe :: "nat option"
  lastEyePoint :: "Vec3 option"
  lastHeading :: real
  lastTilt :: real
  lastFOV :: real
  lastVerticalExaggeration :: real
  lastProjection :: "nat option"

text \<open>
  \<open>geom/Angle\<close> is not among the sources: the three formatting methods that
  \<open>makeAngleLabel\<close> calls on an angle are parameters, under the names the source
  calls them by.
\<close>

record AngleMethods =
  toDecimalDegreesString :: "real \<Rightarrow> nat \<Rightarrow> string"
  doDMSString :: "real \<Rightarrow> string"
  toDMString :: "real \<Rightarrow> string"

text \<open>
  \<open>makeAngleLabel\<close>. The decimal-degrees branch assigns to \<open>label\<close>, which is declared
  nowhere; the module is in strict mode, so the assignment throws.
\<close>

definition makeAngleLabel :: "AngleMethods \<Rightarrow> Layer \<Rightarrow> real \<Rightarrow> real \<Rightarrow> error + string" where
  "makeAngleLabel angle this value resolution =
     (if angleFormat this = dmsAngleFormat then
        if resolution \<ge> 1 then Inr (toDecimalDegreesString angle value 0)
        else Inr (doDMSString angle value)
      else if angleFormat this = dmAngleFormat then
        if resolution \<ge> 1 then Inr (toDecimalDegreesString angle value 0)
        else Inr (toDMString angle value)
      else Inl (ReferenceError ''label is not defined''))"

definition addTextRenderable :: "Renderable \<Rightarrow> string option \<Rightarrow> Layer \<Rightarrow> Layer" where
  "addTextRenderable text paramKey this =
     this\<lparr>textRenderables := textRenderables this @ [(text, paramKey)]\<rparr>"

definition addPathRenderable :: "Renderable \<Rightarrow> string option \<Rightarrow> Layer \<Rightarrow> Layer" where
  "addPathRenderable path paramKey this =
     this\<lparr>pathRenderables := pathRenderables this @ [(path, paramKey)]\<rparr>"

definition removeAllRenderables :: "Layer \<Rightarrow> Layer" where
  "removeAllRenderables this = this\<lparr>pathRenderables := [], textRenderables := []\<rparr>"

text \<open>
  \<open>addLabel\<close> asks the two label arrays through a method \<open>contains\<close>. The language
  gives arrays no such method (its membership test is \<open>includes\<close>), and no source
  file adds one; what the host provides is the parameter \<open>contains\<close>: \<open>None\<close> when
  arrays have no such method, so that the call throws, and \<open>Some c\<close> when the host
  has installed the test \<open>c\<close>.
\<close>

definition addLabel ::
  "(real list \<Rightarrow> real \<Rightarrow> bool) option \<Rightarrow> AngleMethods \<Rightarrow> Layer \<Rightarrow> LabelRequest
     \<Rightarrow> error + Layer" where
  "addLabel contains angle this request =
     (case request of (value, labelType, graticuleLevel, resolution, labelOffset) \<Rightarrow>
        case makeAngleLabel angle this value resolution of
          Inl e \<Rightarrow> Inl e
        | Inr angleLabel \<Rightarrow>
            if labelType = typeLatitudeLabel \<or> labelType = typeLongitudeLabel then
              (case contains of
                 None \<Rightarrow> Inl (TypeError ''this.latitudeLabels.contains is not a function'')
               | Some c \<Rightarrow>
                   if labelType = typeLatitudeLabel \<and> \<not> c (latitudeLabels this) value then
                     Inr (addTextRenderable
                            (GeographicText (Some angleLabel)
                               (Vec3 value (longitude labelOffset) 0))
                            graticuleLevel
                            (this\<lparr>latitudeLabels := latitudeLabels this @ [value]\<rparr>))
                   else if labelType = typeLongitudeLabel
                           \<and> \<not> c (latitudeLabels this) value then
                     Inr (addTextRenderable
                            (GeographicText (Some angleLabel)
                               (Vec3 (latitude labelOffset) value 0))
                            graticuleLevel
                            (this\<lparr>longitudeLabels := longitudeLabels this @ [value]\<rparr>))
                   else Inr this)
            else Inr this)"

text \<open>
  The loop of the layer's \<open>selectRenderables\<close> that forwards the label requests of a
  tile to \<open>addLabel\<close>, one after the other; a throw ends it.
\<close>

fun addLabels ::
  "(real list \<Rightarrow> real \<Rightarrow> bool) option \<Rightarrow> AngleMethods \<Rightarrow> Layer \<Rightarrow> LabelRequest list
     \<Rightarrow> error + Layer" where
  "addLabels contains angle this [] = Inr this"
| "addLabels contains angle this (request # requests) =
     (case addLabel contains angle this request of
        Inl e \<Rightarrow> Inl e
      | Inr this' \<Rightarrow> addLabels contains angle this' requests)"

definition clear :: "DrawContext \<Rightarrow> Layer \<Rightarrow> Layer" where
  "clear dc this =
     (removeAllRenderables this)
       \<lparr>latitudeLabels := [], longitudeLabels := [],
        layer_globe := Some (globe dc),
        lastEyePoint := Some (eyePoint dc),
        lastHeading := navigator_heading dc,
        lastTilt := navigator_tilt dc,
        lastFOV := navigator_fieldOfView dc,
        lastVerticalExaggeration := verticalExaggeration dc,
        lastProjection := Some (globe_projection dc)\<rparr>"

definition new_GraticuleLayer :: Layer where
  "new_GraticuleLayer =
     \<lparr>latitudeLabels = [], longitudeLabels = [], angleFormat = dmsAngleFormat,
      pathRenderables = [], textRenderables = [],
      layer_globe = None, lastEyePoint = None,
      lastHeading = 0, lastTilt = 0, lastFOV = 0, lastVerticalExaggeration = 1,
      lastProjection = None\<rparr>"

section \<open>An example view\<close>

text \<open>
  A draw context for the concrete runs below: the globe shows the whole lat/lon domain,
  the frustum sees the cell from 0 to 10 degrees in both coordinates, the eye is above
  its centre, and a tile of 10 degrees of latitude measures \<open>px\<close> pixels
  (the size is \<open>10 * (pi / 180)\<close> divided by the pixel size \<open>pi / (18 * px)\<close>).
\<close>

definition exampleView :: "real \<Rightarrow> DrawContext" where
  "exampleView px =
     \<lparr>dc_projectionLimits = None,
      globe_projectionLimits = Some (new_Sector (- 90) 90 (- 180) 180),
      intersectsFrustum = (\<lambda>s. overlaps s (new_Sector 0 10 0 10)),
      eyeDistanceToSurface = (\<lambda>lat lon. 1),
      pixelSizeAtDistance = (\<lambda>d. d * pi / (18 * px)),
      eyePosition = Position 5 5 1000,
      eyePoint = Vec3 0 0 0,
      navigator_heading = 0, navigator_tilt = 0, navigator_fieldOfView = 45,
      verticalExaggeration = 1, globe = 0, globe_projection = 0\<rparr>"

section \<open>Properties\<close>

subsection \<open>Unfolding a concrete run\<close>

lemmas run_defs =
  exampleView_def new_GridTile_def new_Sector_def deltaLatitude_def deltaLongitude_def
  centroid_def DEGREES_TO_RADIANS_def createRenderables_def meridianLoop.simps
  parallelLoop.simps meridianElement_def parallelElement_def northElement_def
  northLine_def createLineRenderable_def Let_def selectOwn_def cellSizePixels_def
  getSizeInPixels_def set_gridElements_def set_subTiles_def ge_isInView_def overlaps_def
  isLine_def getLevel_def getLevelOf_def computeLabelOffset_def toNumber_def
  this_minCellSizePixels_def
  minCellSizePixels_def isInView_def base_isInView_def createSubTiles_def
  subdivideSector_def clearRenderables_def upt_rec numeral_2_eq_2

subsection \<open>C4: the resolution bands\<close>

text \<open>
  C4. For every resolution, \<open>getLevel\<close> follows the banded table: at least 10 gives
  level 0, from 1 up to 10 level 1, from 0.1 up to 1 level 2, from 0.01 up to 0.1
  level 3, from 0.001 up to 0.01 level 4, from 0.0001 up to 0.001 level 5, and below
  0.0001 no level is defined. In particular 10.0 maps to level 0, 9.999 to level 1
  and 0.00009 to nothing.
\<close>

theorem getLevel_bands:
  "(10 \<le> r \<longrightarrow> getLevel r = Some graticuleLatLonLevel0) \<and>
   (1 \<le> r \<and> r < 10 \<longrightarrow> getLevel r = Some graticuleLatLonLevel1) \<and>
   (0.1 \<le> r \<and> r < 1 \<longrightarrow> getLevel r = Some graticuleLatLonLevel2) \<and>
   (0.01 \<le> r \<and> r < 0.1 \<longrightarrow> getLevel r = Some graticuleLatLonLevel3) \<and>
   (0.001 \<le> r \<and> r < 0.01 \<longrightarrow> getLevel r = Some graticuleLatLonLevel4) \<and>
   (0.0001 \<le> r \<and> r < 0.001 \<longrightarrow> getLevel r = Some graticuleLatLonLevel5) \<and>
   (r < 0.0001 \<longrightarrow> getLevel r = None) \<and>
   getLevel 10.0 = Some graticuleLatLonLevel0 \<and>
   getLevel 9.999 = Some graticuleLatLonLevel1 \<and>
   getLevel 0.00009 = None"
  by (simp add: getLevel_def)

theorem getLevel_bands_witness:
  "((10::real) \<le> 25 \<and> getLevel 25 = Some graticuleLatLonLevel0) \<and>
   ((1::real) \<le> 5 \<and> (5::real) < 10 \<and> getLevel 5 = Some graticuleLatLonLevel1) \<and>
   ((0.1::real) \<le> 0.5 \<and> (0.5::real) < 1 \<and> getLevel 0.5 = Some graticuleLatLonLevel2) \<and>
   ((0.01::real) \<le> 0.05 \<and> (0.05::real) < 0.1 \<and> getLevel 0.05 = Some graticuleLatLonLevel3) \<and>
   ((0.001::real) \<le> 0.005 \<and> (0.005::real) < 0.01
      \<and> getLevel 0.005 = Some graticuleLatLonLevel4) \<and>
   ((0.0001::real) \<le> 0.0005 \<and> (0.0005::real) < 0.001
      \<and> getLevel 0.0005 = Some graticuleLatLonLevel5) \<and>
   ((0.00001::real) < 0.0001 \<and> getLevel 0.00001 = None)"
  using getLevel_bands [of 25] getLevel_bands [of 5] getLevel_bands [of "0.5"]
    getLevel_bands [of "0.05"] getLevel_bands [of "0.005"] getLevel_bands [of "0.0005"]
    getLevel_bands [of "0.00001"]
  by simp

subsection \<open>C1: the sub-sectors of a tile\<close>

lemma subdivideSector_extent:
  "s \<in> set (subdivideSector t) \<Longrightarrow>
     deltaLatitude s = deltaLatitude (sector t) \<and> deltaLongitude s = deltaLongitude (sector t)"
  by (auto simp: subdivideSector_def Let_def new_Sector_def deltaLatitude_def
      deltaLongitude_def)

text \<open>
  C1. The claim is that the sub-sectors of a tile partition its sector into
  \<open>divisions \<times> divisions\<close> equal parts. The source steps by the whole extent of the
  sector, not by the extent divided by \<open>divisions\<close>: for the top-level tile from 0 to
  10 degrees with 10 divisions there are 100 sub-sectors, the first is the whole
  sector, the second lies beside it and outside it, and the last reaches from 90 to
  100 degrees.
\<close>

theorem subdivideSector_leaves_sector:
  "length (subdivideSector (new_GridTile (new_Sector 0 10 0 10) 10 0)) = 100 \<and>
   subdivideSector (new_GridTile (new_Sector 0 10 0 10) 10 0) ! 0 = new_Sector 0 10 0 10 \<and>
   subdivideSector (new_GridTile (new_Sector 0 10 0 10) 10 0) ! 1 = new_Sector 0 10 10 20 \<and>
   subdivideSector (new_GridTile (new_Sector 0 10 0 10) 10 0) ! 99
     = new_Sector 90 100 90 100 \<and>
   \<not> sectorWithin (subdivideSector (new_GridTile (new_Sector 0 10 0 10) 10 0) ! 1)
        (sector (new_GridTile (new_Sector 0 10 0 10) 10 0))"
  by (simp add: subdivideSector_def new_GridTile_def new_Sector_def deltaLatitude_def
      deltaLongitude_def sectorWithin_def Let_def upt_rec)

subsection \<open>C6: level and divisions of the sub-tiles\<close>

text \<open>
  C6. Every sub-tile that \<open>createSubTiles\<close> constructs has the level of its parent
  plus one, and has 6 divisions when the parent's level is 0 or 2 and 10 divisions
  otherwise.
\<close>

theorem createSubTiles_level_divisions:
  "c \<in> set (createSubTiles t) \<Longrightarrow>
     level c = level t + 1 \<and>
     (level t = 0 \<or> level t = 2 \<longrightarrow> divisions c = 6) \<and>
     (level t \<noteq> 0 \<and> level t \<noteq> 2 \<longrightarrow> divisions c = 10)"
  by (auto simp: createSubTiles_def Let_def new_GridTile_def)

theorem createSubTiles_level_divisions_witness:
  "(new_GridTile (new_Sector 0 10 0 10) 6 1
      \<in> set (createSubTiles (new_GridTile (new_Sector 0 10 0 10) 10 0)) \<and>
    level (new_GridTile (new_Sector 0 10 0 10) 10 0) = 0 \<and>
    level (new_GridTile (new_Sector 0 10 0 10) 6 1) = 1 \<and>
    divisions (new_GridTile (new_Sector 0 10 0 10) 6 1) = 6) \<and>
   (new_GridTile (new_Sector 0 10 0 10) 10 2
      \<in> set (createSubTiles (new_GridTile (new_Sector 0 10 0 10) 6 1)) \<and>
    level (new_GridTile (new_Sector 0 10 0 10) 6 1) \<noteq> 0 \<and>
    level (new_GridTile (new_Sector 0 10 0 10) 6 1) \<noteq> 2 \<and>
    level (new_GridTile (new_Sector 0 10 0 10) 10 2) = 2 \<and>
    divisions (new_GridTile (new_Sector 0 10 0 10) 10 2) = 10)"
proof -
  have in0: "new_GridTile (new_Sector 0 10 0 10) 6 1
      \<in> set (createSubTiles (new_GridTile (new_Sector 0 10 0 10) 10 0))"
    by (simp add: createSubTiles_def subdivideSector_def new_GridTile_def new_Sector_def
        deltaLatitude_def deltaLongitude_def Let_def upt_rec)
  have in1: "new_GridTile (new_Sector 0 10 0 10) 10 2
      \<in> set (createSubTiles (new_GridTile (new_Sector 0 10 0 10) 6 1))"
    by (simp add: createSubTiles_def subdivideSector_def new_GridTile_def new_Sector_def
        deltaLatitude_def deltaLongitude_def Let_def upt_rec)
  show ?thesis
    using in0 in1 createSubTiles_level_divisions [OF in0] createSubTiles_level_divisions [OF in1]
    by (simp add: new_GridTile_def)
qed

subsection \<open>C7: the sectors of the top-level grid\<close>

text \<open>
  C7. The claim is that cell (row, col) of the top-level grid is the 10 by 10 degree
  cell that starts at latitude \<open>-90 + 10 * row\<close> and longitude \<open>-180 + 10 * col\<close>.
  The source multiplies where the claim adds: the western edge is
  \<open>-180 * col * 10\<close>. Cell (0, 0) begins at longitude 0 and not at -180, and cell
  (0, 1) begins at longitude -1800.
\<close>

theorem getGridSector_longitude:
  "getGridSector 0 0 = new_Sector (- 90) (- 80) 0 10 \<and>
   getGridSector 0 1 = new_Sector (- 90) (- 80) (- 1800) (- 1790) \<and>
   getGridSector 17 35 = new_Sector 80 90 (- 63000) (- 62990)"
  by (simp add: getGridSector_def new_Sector_def)

subsection \<open>C10: visibility of a grid element\<close>

text \<open>
  C10. Called without a visible sector on a globe that has no projection limits,
  \<open>isInView\<close> of a grid element returns false and raises nothing; when a sector is
  available, from the argument or else from the globe, the result is whether the
  element's sector overlaps it.
\<close>

theorem ge_isInView_cases:
  "(globe_projectionLimits dc = None \<longrightarrow> ge_isInView ge dc None = False) \<and>
   (globe_projectionLimits dc = Some limits \<longrightarrow>
      ge_isInView ge dc None = overlaps (ge_sector ge) limits) \<and>
   ge_isInView ge dc (Some vs) = overlaps (ge_sector ge) vs"
  by (simp add: ge_isInView_def)

theorem ge_isInView_cases_witness:
  "(globe_projectionLimits ((exampleView 100)\<lparr>globe_projectionLimits := None\<rparr>) = None \<and>
    ge_isInView
      \<lparr>ge_sector = new_Sector 0 10 5 5,
       ge_renderable = createLineRenderable [Position 0 5 0, Position 10 5 0] LINEAR,
       ge_type = typeLine, ge_value = 5\<rparr>
      ((exampleView 100)\<lparr>globe_projectionLimits := None\<rparr>) None = False) \<and>
   (globe_projectionLimits (exampleView 100) = Some (new_Sector (- 90) 90 (- 180) 180) \<and>
    ge_isInView
      \<lparr>ge_sector = new_Sector 0 10 5 5,
       ge_renderable = createLineRenderable [Position 0 5 0, Position 10 5 0] LINEAR,
       ge_type = typeLine, ge_value = 5\<rparr>
      (exampleView 100) None = True)"
  using
    ge_isInView_cases [of "(exampleView 100)\<lparr>globe_projectionLimits := None\<rparr>"
      "\<lparr>ge_sector = new_Sector 0 10 5 5,
        ge_renderable = createLineRenderable [Position 0 5 0, Position 10 5 0] LINEAR,
        ge_type = typeLine, ge_value = 5\<rparr>"]
    ge_isInView_cases [of "exampleView 100"
      "\<lparr>ge_sector = new_Sector 0 10 5 5,
        ge_renderable = createLineRenderable [Position 0 5 0, Position 10 5 0] LINEAR,
        ge_type = typeLine, ge_value = 5\<rparr>"
      "new_Sector (- 90) 90 (- 180) 180"]
  by (simp add: exampleView_def overlaps_def new_Sector_def)

subsection \<open>C3: labels of one frame\<close>

text \<open>
  C3. The claim is that within a frame at most one label is emitted for a coordinate
  value and label type. Both branches of \<open>addLabel\<close> look the value up in the latitude
  labels; the longitude labels are written and never read. Where arrays have no
  method \<open>contains\<close> the first request already throws. With membership installed as
  \<open>contains\<close>, two requests for the longitude label of 10 degrees after \<open>clear\<close> both
  emit a text, and a request for the longitude label of 0 degrees that follows the
  latitude label of 0 degrees emits none.
\<close>

theorem addLabels_longitude_duplicates:
  "addLabels None angle (clear dc new_GraticuleLayer)
     [(10, typeLongitudeLabel, Some graticuleLatLonLevel0, 10, Position 5 5 1000),
      (10, typeLongitudeLabel, Some graticuleLatLonLevel0, 10, Position 5 5 1000)]
     = Inl (TypeError ''this.latitudeLabels.contains is not a function'') \<and>
   map_sum id textRenderables
     (addLabels (Some (\<lambda>xs x. x \<in> set xs)) angle (clear dc new_GraticuleLayer)
        [(10, typeLongitudeLabel, Some graticuleLatLonLevel0, 10, Position 5 5 1000),
         (10, typeLongitudeLabel, Some graticuleLatLonLevel0, 10, Position 5 5 1000)])
     = Inr [(GeographicText (Some (toDecimalDegreesString angle 10 0)) (Vec3 5 10 0),
             Some graticuleLatLonLevel0),
            (GeographicText (Some (toDecimalDegreesString angle 10 0)) (Vec3 5 10 0),
             Some graticuleLatLonLevel0)] \<and>
   map_sum id textRenderables
     (addLabels (Some (\<lambda>xs x. x \<in> set xs)) angle (clear dc new_GraticuleLayer)
        [(0, typeLatitudeLabel, Some graticuleLatLonLevel0, 10, Position 5 5 1000),
         (0, typeLongitudeLabel, Some graticuleLatLonLevel0, 10, Position 5 5 1000)])
     = Inr [(GeographicText (Some (toDecimalDegreesString angle 0 0)) (Vec3 0 5 0),
             Some graticuleLatLonLevel0)]"
  by (simp add: addLabel_def makeAngleLabel_def clear_def removeAllRenderables_def
      new_GraticuleLayer_def addTextRenderable_def)

subsection \<open>What the selection loops return\<close>

lemma level0Loop_texts:
  "fst (snd (level0Loop dc g d off ges sel)) = fst (snd sel)"
  by (induction dc g d off ges sel rule: level0Loop.induct) (auto simp: Let_def)

lemma interiorLoop_texts:
  "interiorLoop dc g d off ges sel = Inr sel' \<Longrightarrow> fst (snd sel') = fst (snd sel)"
  by (induction dc g d off ges sel rule: interiorLoop.induct)
    (auto simp: Let_def split: if_splits)

lemma selectOwn_texts:
  assumes "selectOwn t dc elems = Inr (sel, b)"
  shows "fst (snd sel) = []"
proof (cases "level t = 0")
  case True
  let ?sel0 = "level0Loop dc (getLevel (deltaLatitude (sector t)))
    (deltaLatitude (sector t)) (computeLabelOffset dc) elems ([], [], [])"
  have sel0: "fst (snd ?sel0) = []"
    by (simp add: level0Loop_texts)
  from assms True have "sel = ?sel0 \<or>
      (\<exists>g. interiorLoop dc g (deltaLatitude (sector t)) (computeLabelOffset dc) elems ?sel0
         = Inr sel)"
    by (auto simp: selectOwn_def Let_def split: if_splits sum.splits bool.splits)
  then show ?thesis
    using sel0 by (auto dest: interiorLoop_texts)
next
  case False
  with assms have
    "\<exists>g. interiorLoop dc g (deltaLatitude (sector t)) (computeLabelOffset dc) elems
        ([], [], []) = Inr sel"
    by (auto simp: selectOwn_def Let_def split: if_splits sum.splits)
  then show ?thesis
    by (auto dest: interiorLoop_texts)
qed

lemma selectRenderables_returns_own:
  assumes "selectRenderables depth t dc = Some (Inr sel, t')"
  shows "\<exists>elems b. gridElements t' = Some elems \<and>
           selectOwn (set_gridElements (Some elems) t) dc elems = Inr (sel, b)"
proof (cases depth)
  case 0
  with assms show ?thesis by simp
next
  case (Suc d)
  with assms show ?thesis
    by (auto simp: Let_def set_gridElements_def set_subTiles_def
        split: option.splits sum.splits prod.splits bool.splits)
qed

subsection \<open>The depth bound does not change a result\<close>

text \<open>
  A call that has a value within some depth has the same value within any greater
  depth: the bound only separates the calls that return or throw from those that
  recurse without end.
\<close>

lemma visitSubTiles_mono:
  assumes "\<And>gt r. f gt = Some r \<Longrightarrow> g gt = Some r"
  shows "visitSubTiles f dc gts = Some r \<Longrightarrow> visitSubTiles g dc gts = Some r"
proof (induction gts arbitrary: r)
  case Nil
  then show ?case by simp
next
  case (Cons gt gts)
  show ?case
  proof (cases "isInView gt dc")
    case (Inl e)
    with Cons.prems show ?thesis by simp
  next
    case (Inr b)
    show ?thesis
    proof (cases b)
      case True
      with Inr Cons.prems obtain r1 where f1: "f gt = Some r1"
        by (auto split: option.splits)
      then have g1: "g gt = Some r1"
        by (rule assms)
      from True Inr Cons.prems f1 g1 Cons.IH show ?thesis
        by (auto split: option.splits sum.splits prod.splits)
    next
      case False
      with Inr Cons.prems Cons.IH show ?thesis
        by (auto split: option.splits)
    qed
  qed
qed

lemma selectRenderables_more_depth:
  "selectRenderables depth t dc = Some r \<Longrightarrow> selectRenderables (Suc depth) t dc = Some r"
proof (induction depth arbitrary: t r)
  case 0
  then show ?case by simp
next
  case (Suc d)
  have step: "\<And>gts v. visitSubTiles (\<lambda>gt. selectRenderables d gt dc) dc gts = Some v \<Longrightarrow>
      visitSubTiles (\<lambda>gt. selectRenderables (Suc d) gt dc) dc gts = Some v"
    by (rule visitSubTiles_mono) (rule Suc.IH)
  note unfold =
    selectRenderables.simps(2) [of d t dc] selectRenderables.simps(2) [of "Suc d" t dc]
  let ?created = "case gridElements t of None \<Rightarrow> createRenderables t
                  | Some elems \<Rightarrow> Some elems"
  show ?case
  proof (cases ?created)
    case None
    with Suc.prems show ?thesis
      unfolding unfold by simp
  next
    case (Some elems)
    let ?t1 = "set_gridElements (Some elems) t"
    let ?subs = "case subTiles ?t1 of None \<Rightarrow> createSubTiles ?t1 | Some ts \<Rightarrow> ts"
    show ?thesis
    proof (cases "selectOwn ?t1 dc elems")
      case (Inl e)
      with Some Suc.prems show ?thesis
        unfolding unfold by simp
    next
      case own: (Inr sb)
      obtain sel b where sb: "sb = (sel, b)"
        by (cases sb)
      show ?thesis
      proof (cases b)
        case True
        with Some own sb Suc.prems show ?thesis
          unfolding unfold by simp
      next
        case False
        with Some own sb Suc.prems obtain v where
          v: "visitSubTiles (\<lambda>gt. selectRenderables d gt dc) dc ?subs = Some v"
          unfolding unfold
          by (cases "visitSubTiles (\<lambda>gt. selectRenderables d gt dc) dc ?subs")
            (simp_all add: Let_def)
        then have v':
          "visitSubTiles (\<lambda>gt. selectRenderables (Suc d) gt dc) dc ?subs = Some v"
          by (rule step)
        from False Some own sb Suc.prems v v' show ?thesis
          unfolding unfold by (simp add: Let_def)
      qed
    qed
  qed
qed

lemma selectRenderables_depth_mono:
  "selectRenderables depth t dc = Some r \<Longrightarrow> selectRenderables (depth + k) t dc = Some r"
  by (induction k) (auto dest: selectRenderables_more_depth)

subsection \<open>Calls that divide by zero return\<close>

text \<open>
  A tile with no divisions has the step \<open>Infinity\<close>: it creates no element, its cell
  size is \<open>Infinity\<close>, which is below no threshold, it has no sub-tiles to visit, and
  the call returns three empty lists.
\<close>

lemma selectRenderables_zero_divisions:
  "selectRenderables 1 (new_GridTile (new_Sector 0 10 0 10) 0 0) (exampleView 100)
     = Some (Inr ([], [], []),
             GridTile (new_Sector 0 10 0 10) 0 0 (Some []) (Some []))"
  by (simp add: run_defs)

text \<open>
  In a view whose pixel size is zero the size of the top-level tile is \<open>Infinity\<close>:
  no test against the cell size stops the call, so the tile returns its two boundary
  lines and its eighteen interior lines and goes on to its sub-tiles; here none is in
  the frustum, and the call returns.
\<close>

lemma selectRenderables_zero_pixel_size:
  "getSizeInPixels (new_GridTile (new_Sector 0 10 0 10) 10 0)
     ((exampleView 100)\<lparr>intersectsFrustum := (\<lambda>s. False),
                         pixelSizeAtDistance := (\<lambda>d. 0)\<rparr>)
     = Inl PosInfinity \<and>
   map_option
     (\<lambda>r. map_sum id
             (\<lambda>sel. (length (fst sel), fst (snd sel), length (snd (snd sel)))) (fst r))
     (selectRenderables 1 (new_GridTile (new_Sector 0 10 0 10) 10 0)
        ((exampleView 100)\<lparr>intersectsFrustum := (\<lambda>s. False),
                            pixelSizeAtDistance := (\<lambda>d. 0)\<rparr>))
     = Some (Inr (20, [], 20))"
  by (simp add: run_defs)

subsection \<open>C9: no text renderable is selected\<close>

text \<open>
  C9. Whenever \<open>selectRenderables\<close> returns, the second component of the returned
  triple, the selected text renderables, is the empty list: the level-0 loop pushes
  path renderables only, and the second loop considers elements of type \<open>Line\<close>
  only, for which \<open>isLine\<close> holds. Labels leave a tile through the label requests
  alone.
\<close>

theorem selectRenderables_no_texts:
  "selectRenderables depth t dc = Some (Inr sel, t') \<Longrightarrow> fst (snd sel) = []"
proof -
  assume "selectRenderables depth t dc = Some (Inr sel, t')"
  then obtain elems b where
    "selectOwn (set_gridElements (Some elems) t) dc elems = Inr (sel, b)"
    using selectRenderables_returns_own by blast
  then show "fst (snd sel) = []"
    by (rule selectOwn_texts)
qed

theorem selectRenderables_no_texts_witness:
  "selectRenderables 1 (new_GridTile (new_Sector 0 10 20 30) 2 0) (exampleView 100)
     = Some (Inr ([(createLineRenderable [Position 0 20 0, Position 10 20 0] LINEAR,
                    Some graticuleLatLonLevel0),
                   (createLineRenderable [Position 0 20 0, Position 0 30 0] LINEAR,
                    Some graticuleLatLonLevel0),
                   (createLineRenderable [Position 0 25 0, Position 10 25 0] LINEAR,
                    Some graticuleLatLonLevel1),
                   (createLineRenderable [Position 5 20 0, Position 5 30 0] LINEAR,
                    Some graticuleLatLonLevel1)],
                  [],
                  [(20, typeLongitudeLabel, Some graticuleLatLonLevel0, 10, Position 5 5 1000),
                   (0, typeLatitudeLabel, Some graticuleLatLonLevel0, 10, Position 5 5 1000),
                   (25, typeLongitudeLabel, Some graticuleLatLonLevel1, 10, Position 5 5 1000),
                   (5, typeLatitudeLabel, Some graticuleLatLonLevel1, 10, Position 5 5 1000)]),
             set_gridElements
               (Some [meridianElement (new_GridTile (new_Sector 0 10 20 30) 2 0) 20,
                      meridianElement (new_GridTile (new_Sector 0 10 20 30) 2 0) 25,
                      parallelElement (new_GridTile (new_Sector 0 10 20 30) 2 0) 0,
                      parallelElement (new_GridTile (new_Sector 0 10 20 30) 2 0) 5])
               (new_GridTile (new_Sector 0 10 20 30) 2 0)) \<and>
   fst (snd ([(createLineRenderable [Position 0 20 0, Position 10 20 0] LINEAR,
               Some graticuleLatLonLevel0),
              (createLineRenderable [Position 0 20 0, Position 0 30 0] LINEAR,
               Some graticuleLatLonLevel0),
              (createLineRenderable [Position 0 25 0, Position 10 25 0] LINEAR,
               Some graticuleLatLonLevel1),
              (createLineRenderable [Position 5 20 0, Position 5 30 0] LINEAR,
               Some graticuleLatLonLevel1)],
             [] :: (Renderable \<times> string option) list,
             [(20, typeLongitudeLabel, Some graticuleLatLonLevel0, 10, Position 5 5 1000),
              (0, typeLatitudeLabel, Some graticuleLatLonLevel0, 10, Position 5 5 1000),
              (25, typeLongitudeLabel, Some graticuleLatLonLevel1, 10, Position 5 5 1000),
              (5, typeLatitudeLabel, Some graticuleLatLonLevel1, 10, Position 5 5 1000)]))
     = []"
proof -
  have run: "selectRenderables 1 (new_GridTile (new_Sector 0 10 20 30) 2 0) (exampleView 100)
     = Some (Inr ([(createLineRenderable [Position 0 20 0, Position 10 20 0] LINEAR,
                    Some graticuleLatLonLevel0),
                   (createLineRenderable [Position 0 20 0, Position 0 30 0] LINEAR,
                    Some graticuleLatLonLevel0),
                   (createLineRenderable [Position 0 25 0, Position 10 25 0] LINEAR,
                    Some graticuleLatLonLevel1),
                   (createLineRenderable [Position 5 20 0, Position 5 30 0] LINEAR,
                    Some graticuleLatLonLevel1)],
                  [],
                  [(20, typeLongitudeLabel, Some graticuleLatLonLevel0, 10, Position 5 5 1000),
                   (0, typeLatitudeLabel, Some graticuleLatLonLevel0, 10, Position 5 5 1000),
                   (25, typeLongitudeLabel, Some graticuleLatLonLevel1, 10, Position 5 5 1000),
                   (5, typeLatitudeLabel, Some graticuleLatLonLevel1, 10, Position 5 5 1000)]),
             set_gridElements
               (Some [meridianElement (new_GridTile (new_Sector 0 10 20 30) 2 0) 20,
                      meridianElement (new_GridTile (new_Sector 0 10 20 30) 2 0) 25,
                      parallelElement (new_GridTile (new_Sector 0 10 20 30) 2 0) 0,
                      parallelElement (new_GridTile (new_Sector 0 10 20 30) 2 0) 5])
               (new_GridTile (new_Sector 0 10 20 30) 2 0))"
    by (simp add: run_defs)
  from run selectRenderables_no_texts [OF run] show ?thesis
    by simp
qed

subsection \<open>C8: the label type of an interior line\<close>

text \<open>
  C8, as stated: a line of type \<open>Line\<close> whose sector has zero latitude-delta gets a
  longitude label and one whose sector has zero longitude-delta a latitude label. On
  the tile from 0 to 10 degrees latitude and 20 to 30 degrees longitude with two
  divisions the source does the opposite: the meridian at 25 degrees, whose sector has
  longitude-delta 0 and latitude-delta 10, gets the longitude label, and the parallel
  at 5 degrees, whose sector has latitude-delta 0 and longitude-delta 10, gets the
  latitude label.
\<close>

theorem selectRenderables_label_type_counterexample:
  "selectRenderables 1 (new_GridTile (new_Sector 0 10 20 30) 2 1) (exampleView 100)
     = Some (Inr ([(createLineRenderable [Position 0 25 0, Position 10 25 0] LINEAR,
                    Some graticuleLatLonLevel1),
                   (createLineRenderable [Position 5 20 0, Position 5 30 0] LINEAR,
                    Some graticuleLatLonLevel1)],
                  [],
                  [(25, typeLongitudeLabel, Some graticuleLatLonLevel1, 10, Position 5 5 1000),
                   (5, typeLatitudeLabel, Some graticuleLatLonLevel1, 10, Position 5 5 1000)]),
             set_gridElements
               (Some [meridianElement (new_GridTile (new_Sector 0 10 20 30) 2 1) 25,
                      parallelElement (new_GridTile (new_Sector 0 10 20 30) 2 1) 5])
               (new_GridTile (new_Sector 0 10 20 30) 2 1)) \<and>
   ge_type (meridianElement (new_GridTile (new_Sector 0 10 20 30) 2 1) 25) = typeLine \<and>
   ge_value (meridianElement (new_GridTile (new_Sector 0 10 20 30) 2 1) 25) = 25 \<and>
   deltaLongitude (ge_sector (meridianElement (new_GridTile (new_Sector 0 10 20 30) 2 1) 25))
     = 0 \<and>
   deltaLatitude (ge_sector (meridianElement (new_GridTile (new_Sector 0 10 20 30) 2 1) 25))
     = 10 \<and>
   ge_type (parallelElement (new_GridTile (new_Sector 0 10 20 30) 2 1) 5) = typeLine \<and>
   ge_value (parallelElement (new_GridTile (new_Sector 0 10 20 30) 2 1) 5) = 5 \<and>
   deltaLatitude (ge_sector (parallelElement (new_GridTile (new_Sector 0 10 20 30) 2 1) 5))
     = 0 \<and>
   deltaLongitude (ge_sector (parallelElement (new_GridTile (new_Sector 0 10 20 30) 2 1) 5))
     = 10"
  by (simp add: run_defs)

text \<open>
  C8, amended. The second loop of \<open>selectRenderables\<close> never throws; it emits, in
  order, every element in view whose type is \<open>Line\<close>, as a path, and queues for each
  one label request, whose type is the latitude label when the element's sector has
  zero latitude-delta (a parallel) and the longitude label otherwise (a meridian,
  whose sector spans the latitudes of the tile).
\<close>

theorem interiorLoop_label_type:
  "interiorLoop dc graticuleLevel dLat labelOffset elems (paths, texts, labels) =
     Inr (paths @ map (\<lambda>ge. (ge_renderable ge, graticuleLevel))
                    (filter (\<lambda>ge. ge_isInView ge dc None \<and> ge_type ge = typeLine) elems),
          texts,
          labels @ map (\<lambda>ge. (ge_value ge,
                               (if deltaLatitude (ge_sector ge) = 0
                                then typeLatitudeLabel else typeLongitudeLabel),
                               graticuleLevel, dLat, labelOffset))
                     (filter (\<lambda>ge. ge_isInView ge dc None \<and> ge_type ge = typeLine) elems))"
  by (induction elems arbitrary: paths labels) (simp_all add: isLine_def Let_def)

theorem interiorLoop_label_type_witness:
  "interiorLoop (exampleView 100) (Some graticuleLatLonLevel1) 10 (Position 5 5 1000)
     [meridianElement (new_GridTile (new_Sector 0 10 20 30) 2 1) 25,
      parallelElement (new_GridTile (new_Sector 0 10 20 30) 2 1) 5,
      northElement (new_GridTile (new_Sector 80 90 20 30) 2 1)]
     ([], [], [])
   = Inr ([(createLineRenderable [Position 0 25 0, Position 10 25 0] LINEAR,
            Some graticuleLatLonLevel1),
           (createLineRenderable [Position 5 20 0, Position 5 30 0] LINEAR,
            Some graticuleLatLonLevel1)],
          [],
          [(25, typeLongitudeLabel, Some graticuleLatLonLevel1, 10, Position 5 5 1000),
           (5, typeLatitudeLabel, Some graticuleLatLonLevel1, 10, Position 5 5 1000)])"
  using interiorLoop_label_type [of "exampleView 100" "Some graticuleLatLonLevel1" 10
      "Position 5 5 1000"
      "[meridianElement (new_GridTile (new_Sector 0 10 20 30) 2 1) 25,
        parallelElement (new_GridTile (new_Sector 0 10 20 30) 2 1) 5,
        northElement (new_GridTile (new_Sector 80 90 20 30) 2 1)]" "[]" "[]" "[]"]
  by (simp add: exampleView_def new_GridTile_def new_Sector_def deltaLatitude_def
      meridianElement_def parallelElement_def northElement_def createLineRenderable_def
      Let_def ge_isInView_def overlaps_def)

subsection \<open>C5: a level-0 tile whose cells are small\<close>

text \<open>
  C5. The claim is that a level-0 tile whose cells measure less than 40 pixels returns
  after its boundary lines, with no interior line. The early return compares the cell
  size with \<open>this.minCellSizePixels\<close>, which is undefined, so the comparison is false
  and the return is never taken. For the top-level tile from 0 to 10 degrees with 10
  divisions in a view where it measures 100 pixels, a cell measures 10 pixels, and the
  call returns the two boundary lines followed by the nine interior meridians and the
  nine interior parallels, each with its label request. It stops before the sub-tiles
  only because a cell is below 80 pixels.
\<close>

theorem selectRenderables_level0_small_cells:
  "cellSizePixels (new_GridTile (new_Sector 0 10 0 10) 10 0) (exampleView 100) = Inr 10 \<and>
   map_option fst
     (selectRenderables 1 (new_GridTile (new_Sector 0 10 0 10) 10 0) (exampleView 100))
     = Some (Inr (
         [(createLineRenderable [Position 0 0 0, Position 10 0 0] LINEAR,
           Some graticuleLatLonLevel0),
          (createLineRenderable [Position 0 0 0, Position 0 10 0] LINEAR,
           Some graticuleLatLonLevel0)]
         @ map (\<lambda>v. (createLineRenderable [Position 0 v 0, Position 10 v 0] LINEAR,
                       Some graticuleLatLonLevel1)) [1, 2, 3, 4, 5, 6, 7, 8, 9]
         @ map (\<lambda>v. (createLineRenderable [Position v 0 0, Position v 10 0] LINEAR,
                       Some graticuleLatLonLevel1)) [1, 2, 3, 4, 5, 6, 7, 8, 9],
         [],
         [(0, typeLongitudeLabel, Some graticuleLatLonLevel0, 10, Position 5 5 1000),
          (0, typeLatitudeLabel, Some graticuleLatLonLevel0, 10, Position 5 5 1000)]
         @ map (\<lambda>v. (v, typeLongitudeLabel, Some graticuleLatLonLevel1, 10,
                       Position 5 5 1000)) [1, 2, 3, 4, 5, 6, 7, 8, 9]
         @ map (\<lambda>v. (v, typeLatitudeLabel, Some graticuleLatLonLevel1, 10,
                       Position 5 5 1000)) [1, 2, 3, 4, 5, 6, 7, 8, 9])) \<and>
   map_option (\<lambda>r. subTiles (snd r))
     (selectRenderables 1 (new_GridTile (new_Sector 0 10 0 10) 10 0) (exampleView 100))
     = Some None"
  by (simp add: run_defs)

subsection \<open>C2: what a tile returns after visiting its sub-tiles\<close>

text \<open>
  C2. The claim is that a tile that visits its sub-tiles returns its own elements
  together with those its visible sub-tiles return. The source calls
  \<open>selectRenderables\<close> on a visible sub-tile and drops what the call returns. The tile
  of level 1 from 0 to 10 degrees with 6 divisions, in a view where it measures 500
  pixels, has a first sub-tile of level 2 with 10 divisions on the same sector. That
  sub-tile is in view and returns eighteen lines with their label requests, among them
  the meridian at 1 degree; the tile itself returns its own ten lines only.
\<close>

theorem selectRenderables_drops_subtile_results:
  "createSubTiles (new_GridTile (new_Sector 0 10 0 10) 6 1) ! 0
     = new_GridTile (new_Sector 0 10 0 10) 10 2 \<and>
   isInView (new_GridTile (new_Sector 0 10 0 10) 10 2) (exampleView 500) = Inr True \<and>
   map_option fst
     (selectRenderables 1 (new_GridTile (new_Sector 0 10 0 10) 10 2) (exampleView 500))
     = Some (Inr (
         map (\<lambda>v. (createLineRenderable [Position 0 v 0, Position 10 v 0] LINEAR,
                     Some graticuleLatLonLevel1)) [1, 2, 3, 4, 5, 6, 7, 8, 9]
         @ map (\<lambda>v. (createLineRenderable [Position v 0 0, Position v 10 0] LINEAR,
                       Some graticuleLatLonLevel1)) [1, 2, 3, 4, 5, 6, 7, 8, 9],
         [],
         map (\<lambda>v. (v, typeLongitudeLabel, Some graticuleLatLonLevel1, 10,
                     Position 5 5 1000)) [1, 2, 3, 4, 5, 6, 7, 8, 9]
         @ map (\<lambda>v. (v, typeLatitudeLabel, Some graticuleLatLonLevel1, 10,
                       Position 5 5 1000)) [1, 2, 3, 4, 5, 6, 7, 8, 9])) \<and>
   map_option fst
     (selectRenderables 2 (new_GridTile (new_Sector 0 10 0 10) 6 1) (exampleView 500))
     = Some (Inr (
         map (\<lambda>v. (createLineRenderable [Position 0 v 0, Position 10 v 0] LINEAR,
                     Some graticuleLatLonLevel1)) [5 / 3, 10 / 3, 5, 20 / 3, 25 / 3]
         @ map (\<lambda>v. (createLineRenderable [Position v 0 0, Position v 10 0] LINEAR,
                       Some graticuleLatLonLevel1)) [5 / 3, 10 / 3, 5, 20 / 3, 25 / 3],
         [],
         map (\<lambda>v. (v, typeLongitudeLabel, Some graticuleLatLonLevel1, 10,
                     Position 5 5 1000)) [5 / 3, 10 / 3, 5, 20 / 3, 25 / 3]
         @ map (\<lambda>v. (v, typeLatitudeLabel, Some graticuleLatLonLevel1, 10,
                       Position 5 5 1000)) [5 / 3, 10 / 3, 5, 20 / 3, 25 / 3])) \<and>
   map_option (\<lambda>r. map_option (\<lambda>ts. gridElements (ts ! 0) \<noteq> None) (subTiles (snd r)))
     (selectRenderables 2 (new_GridTile (new_Sector 0 10 0 10) 6 1) (exampleView 500))
     = Some (Some True)"
  by (simp add: run_defs)

end
